theory Spec2Isabelle
  imports Main
begin

section \<open>Values, dictionaries and errors\<close>

text \<open>
  The pool class of \<^verbatim>\<open>fastlane_bot/events/pools/bancor_v2.py\<close> keeps its state in a
  Python dictionary \<^verbatim>\<open>self.state\<close> from field names to values of any type. The values
  that occur are integers (balances, the fee), strings (addresses, the correlation
  identifier, the exchange name) and one float, the normalised fee \<^verbatim>\<open>fee / 1e6\<close>.

  The float is kept symbolic: \<open>VFloatDiv1e6 n\<close> stands for the float that Python computes
  for \<^verbatim>\<open>n / 1e6\<close>. Its rounding is not modelled. On integers and strings Python's
  \<^verbatim>\<open>==\<close> is the equality of HOL.
\<close>

datatype val = VInt int | VStr string | VFloatDiv1e6 int

text \<open>
  The exceptions the code can raise: a missing dictionary key (with the key, as Python
  reports it) and a failure of a read against the on-chain contract.
\<close>

datatype error = KeyError string | ContractCallFailure

text \<open>
  A dictionary with string keys is a map. \<^verbatim>\<open>self.state\<close>, the seed \<^verbatim>\<open>data\<close>, the
  returned delta and the event's \<^verbatim>\<open>args\<close> are such dictionaries; an event is a
  dictionary whose entry \<^verbatim>\<open>"args"\<close> holds the argument dictionary.
\<close>

type_synonym pydict = "string \<rightharpoonup> val"

type_synonym event = "string \<rightharpoonup> pydict"

text \<open>\<^verbatim>\<open>d[k]\<close>: the value, or \<^verbatim>\<open>KeyError(k)\<close> when the key is absent.\<close>

definition getitem :: "(string \<rightharpoonup> 'a) \<Rightarrow> string \<Rightarrow> error + 'a" where
  "getitem d k = (case d k of None \<Rightarrow> Inl (KeyError k) | Some v \<Rightarrow> Inr v)"

text \<open>
  The contract handle, as the three read-only calls the pool makes on it. Each call
  either raises or returns its result: \<^verbatim>\<open>reserveBalances()\<close> a pair,
  \<^verbatim>\<open>conversionFee()\<close> an integer (a \<^verbatim>\<open>uint32\<close> on chain, so its conversion to a float
  never overflows), \<^verbatim>\<open>anchor()\<close> an address.
\<close>

record contract =
  reserveBalances :: "error + val \<times> val"
  conversionFee :: "error + int"
  anchor :: "error + val"

section \<open>The pool's operations\<close>

text \<open>\<^verbatim>\<open>unique_key\<close> (lines 24-29): the name of the state field that identifies the pool.\<close>

definition unique_key :: string where
  "unique_key = ''address''"

text \<open>
  \<^verbatim>\<open>event_matches_format\<close> (lines 31-48), a class method: it sees the event only.
  \<^verbatim>\<open>event["args"]\<close> raises when the event has no arguments.
\<close>

definition event_matches_format :: "event \<Rightarrow> error + bool" where
  "event_matches_format event =
     (case getitem event ''args'' of
        Inl e \<Rightarrow> Inl e
      | Inr event_args \<Rightarrow> Inr (event_args ''_rateN'' \<noteq> None))"

text \<open>
  The condition of line 67,
  \<^verbatim>\<open>event_args["_token1"] == tkn0 and event_args["_token2"] == tkn1\<close>. Python's
  \<^verbatim>\<open>and\<close> reads \<^verbatim>\<open>"_token2"\<close> only when the first comparison holds.
\<close>

definition tokens_match :: "pydict \<Rightarrow> val \<Rightarrow> val \<Rightarrow> error + bool" where
  "tokens_match event_args tkn0 tkn1 =
     (case getitem event_args ''_token1'' of
        Inl e \<Rightarrow> Inl e
      | Inr t1 \<Rightarrow>
          if t1 = tkn0
          then (case getitem event_args ''_token2'' of
                  Inl e \<Rightarrow> Inl e
                | Inr t2 \<Rightarrow> Inr (t2 = tkn1))
          else Inr False)"

text \<open>
  Lines 56-72 of \<^verbatim>\<open>update_from_event\<close>: the token addresses are read from the state,
  the arguments from the event, and the two balances are written into \<^verbatim>\<open>data\<close>. In
  the branch of a matching event they are the event's \<^verbatim>\<open>_rateN\<close> and \<^verbatim>\<open>_rateD\<close>; in
  the other branch both lines 71 and 72 read \<^verbatim>\<open>self.state["tkn0_balance"]\<close>. Nothing
  is written to the state here.
\<close>

definition event_balances :: "pydict \<Rightarrow> event \<Rightarrow> pydict \<Rightarrow> error + pydict" where
  "event_balances state event data =
     (case getitem state ''tkn0_address'' of Inl e \<Rightarrow> Inl e | Inr tkn0 \<Rightarrow>
      case getitem state ''tkn1_address'' of Inl e \<Rightarrow> Inl e | Inr tkn1 \<Rightarrow>
      case getitem event ''args'' of Inl e \<Rightarrow> Inl e | Inr event_args \<Rightarrow>
      case tokens_match event_args tkn0 tkn1 of Inl e \<Rightarrow> Inl e | Inr matched \<Rightarrow>
      if matched
      then (case getitem event_args ''_rateN'' of Inl e \<Rightarrow> Inl e | Inr rateN \<Rightarrow>
            case getitem event_args ''_rateD'' of Inl e \<Rightarrow> Inl e | Inr rateD \<Rightarrow>
            Inr (data(''tkn0_balance'' \<mapsto> rateN, ''tkn1_balance'' \<mapsto> rateD)))
      else (case getitem state ''tkn0_balance'' of Inl e \<Rightarrow> Inl e | Inr b0 \<Rightarrow>
            case getitem state ''tkn0_balance'' of Inl e \<Rightarrow> Inl e | Inr b1 \<Rightarrow>
            Inr (data(''tkn0_balance'' \<mapsto> b0, ''tkn1_balance'' \<mapsto> b1))))"

text \<open>
  Lines 77-81: the five fields read back from the state into \<^verbatim>\<open>data\<close>, in the
  source's order.
\<close>

definition read_back :: "pydict \<Rightarrow> pydict \<Rightarrow> error + pydict" where
  "read_back state data =
     (case getitem state ''anchor'' of Inl e \<Rightarrow> Inl e | Inr a \<Rightarrow>
      case getitem state ''cid'' of Inl e \<Rightarrow> Inl e | Inr c \<Rightarrow>
      case getitem state ''fee'' of Inl e \<Rightarrow> Inl e | Inr f \<Rightarrow>
      case getitem state ''fee_float'' of Inl e \<Rightarrow> Inl e | Inr ff \<Rightarrow>
      case getitem state ''exchange_name'' of Inl e \<Rightarrow> Inl e | Inr x \<Rightarrow>
      Inr (data(''anchor'' \<mapsto> a, ''cid'' \<mapsto> c, ''fee'' \<mapsto> f,
                ''fee_float'' \<mapsto> ff, ''exchange_name'' \<mapsto> x)))"

text \<open>
  \<^verbatim>\<open>update_from_event\<close> (lines 50-82). The result is the state after the call and
  either the exception raised or the dictionary returned. The loop of lines 74-75
  stores every entry of \<^verbatim>\<open>data\<close> in the state, which is \<open>state ++ data\<close>; it runs
  before lines 77-81, so an exception raised there leaves the written state behind.
  The state, the event and \<^verbatim>\<open>data\<close> are distinct objects; the caller's \<^verbatim>\<open>data\<close>
  is updated in place and returned, and the model returns the updated dictionary.
\<close>

definition update_from_event :: "pydict \<Rightarrow> event \<Rightarrow> pydict \<Rightarrow> pydict \<times> (error + pydict)" where
  "update_from_event state event data =
     (case event_balances state event data of
        Inl e \<Rightarrow> (state, Inl e)
      | Inr data1 \<Rightarrow>
          (let state1 = state ++ data1 in
           case read_back state1 data1 of
             Inl e \<Rightarrow> (state1, Inl e)
           | Inr data2 \<Rightarrow> (state1, Inr data2)))"

text \<open>
  \<^verbatim>\<open>update_from_contract\<close> (lines 84-102). The dictionary \<^verbatim>\<open>params\<close> is built in
  full (two contract reads, two reads of the state, a third contract read) before the
  loop of lines 100-101 stores it in the state.
\<close>

definition update_from_contract :: "pydict \<Rightarrow> contract \<Rightarrow> pydict \<times> (error + pydict)" where
  "update_from_contract state c =
     (case reserveBalances c of Inl e \<Rightarrow> (state, Inl e) | Inr (reserve0, reserve1) \<Rightarrow>
      case conversionFee c of Inl e \<Rightarrow> (state, Inl e) | Inr fee \<Rightarrow>
      case getitem state ''exchange_name'' of Inl e \<Rightarrow> (state, Inl e) | Inr exchange_name \<Rightarrow>
      case getitem state ''address'' of Inl e \<Rightarrow> (state, Inl e) | Inr address \<Rightarrow>
      case anchor c of Inl e \<Rightarrow> (state, Inl e) | Inr anchor_address \<Rightarrow>
      (let params = [''fee'' \<mapsto> VInt fee,
                     ''fee_float'' \<mapsto> VFloatDiv1e6 fee,
                     ''exchange_name'' \<mapsto> exchange_name,
                     ''address'' \<mapsto> address,
                     ''anchor'' \<mapsto> anchor_address,
                     ''tkn0_balance'' \<mapsto> reserve0,
                     ''tkn1_balance'' \<mapsto> reserve1]
       in (state ++ params, Inr params)))"

section \<open>Names used in the statements\<close>

text \<open>The fields that lines 77-81 read back from the state.\<close>

definition identity_keys :: "string set" where
  "identity_keys = {''anchor'', ''cid'', ''fee'', ''fee_float'', ''exchange_name''}"

text \<open>The keys of the dictionary \<^verbatim>\<open>params\<close> of lines 91-99.\<close>

definition contract_keys :: "string set" where
  "contract_keys = {''fee'', ''fee_float'', ''exchange_name'', ''address'', ''anchor'',
                    ''tkn0_balance'', ''tkn1_balance''}"

text \<open>
  The pool state of the specification's scenarios, as the specification writes it: the
  token pair, the balances (100, 200), the fee and the cid.
\<close>

definition bare_pool :: pydict where
  "bare_pool =
     [''tkn0_address'' \<mapsto> VStr ''0xA'', ''tkn1_address'' \<mapsto> VStr ''0xB'',
      ''tkn0_balance'' \<mapsto> VInt 100, ''tkn1_balance'' \<mapsto> VInt 200,
      ''fee'' \<mapsto> VInt 3000, ''cid'' \<mapsto> VStr ''p1'']"

text \<open>
  The pool of the specification's scenarios, with the further fields that lines 77-81
  read and the pool's address.
\<close>

definition scenario_pool :: pydict where
  "scenario_pool =
     [''tkn0_address'' \<mapsto> VStr ''0xA'', ''tkn1_address'' \<mapsto> VStr ''0xB'',
      ''tkn0_balance'' \<mapsto> VInt 100, ''tkn1_balance'' \<mapsto> VInt 200,
      ''fee'' \<mapsto> VInt 3000, ''cid'' \<mapsto> VStr ''p1'',
      ''fee_float'' \<mapsto> VFloatDiv1e6 3000, ''anchor'' \<mapsto> VStr ''0xC'',
      ''exchange_name'' \<mapsto> VStr ''bancor_v2'', ''address'' \<mapsto> VStr ''0xD'']"

text \<open>The two events of the scenarios: the pool's pair in order, and swapped.\<close>

definition matching_event :: event where
  "matching_event =
     [''args'' \<mapsto> [''_token1'' \<mapsto> VStr ''0xA'', ''_token2'' \<mapsto> VStr ''0xB'',
                  ''_rateN'' \<mapsto> VInt 150, ''_rateD'' \<mapsto> VInt 250]]"

definition swapped_event :: event where
  "swapped_event =
     [''args'' \<mapsto> [''_token1'' \<mapsto> VStr ''0xB'', ''_token2'' \<mapsto> VStr ''0xA'',
                  ''_rateN'' \<mapsto> VInt 999, ''_rateD'' \<mapsto> VInt 888]]"

text \<open>A contract whose three reads succeed.\<close>

definition scenario_contract :: contract where
  "scenario_contract =
     \<lparr>reserveBalances = Inr (VInt 500, VInt 600), conversionFee = Inr 2000,
      anchor = Inr (VStr ''0xC'')\<rparr>"

text \<open>
  A pool as it is before its first contract read, holding only what
  \<open>update_from_contract\<close> reads from the state; and an event of another shape.
\<close>

definition fresh_pool :: pydict where
  "fresh_pool = [''exchange_name'' \<mapsto> VStr ''bancor_v2'', ''address'' \<mapsto> VStr ''0xD'']"

definition unrelated_event :: event where
  "unrelated_event = [''args'' \<mapsto> [''_token1'' \<mapsto> VStr ''0xA'', ''amount'' \<mapsto> VInt 5]]"

section \<open>What the operations return\<close>

lemmas event_defs =
  update_from_event_def event_balances_def read_back_def tokens_match_def getitem_def

lemma map_add_twice: "m ++ n ++ n = m ++ n"
  by (rule ext) (simp add: map_add_def split: option.split)

lemma event_balances_Inr:
  "event_balances state event data = Inr data1 \<Longrightarrow>
   \<exists>x y. data1 = data(''tkn0_balance'' \<mapsto> x, ''tkn1_balance'' \<mapsto> y)"
  by (auto simp: event_balances_def split: sum.splits if_splits)

lemma event_balances_Inl:
  "event_balances state event data = Inl e \<Longrightarrow> e \<notin> KeyError ` identity_keys"
  by (auto simp: event_balances_def tokens_match_def getitem_def identity_keys_def
      split: sum.splits if_splits option.splits)


lemma read_back_Inl:
  "read_back state data = Inl e \<Longrightarrow> e \<in> KeyError ` identity_keys"
  by (auto simp: read_back_def getitem_def identity_keys_def split: sum.splits option.splits)

lemma read_back_Inr:
  "read_back state data = Inr data2 \<Longrightarrow>
   data2 = data(''anchor'' := state ''anchor'', ''cid'' := state ''cid'', ''fee'' := state ''fee'',
                ''fee_float'' := state ''fee_float'', ''exchange_name'' := state ''exchange_name'')
   \<and> identity_keys \<subseteq> dom state"
  by (auto simp: read_back_def getitem_def identity_keys_def split: sum.splits option.splits)



text \<open>
  A call of \<open>update_from_event\<close> that returns has written the seed and two balances
  to the state and has read the five identity fields back from it.
\<close>

lemma update_from_event_Inr:
  assumes "update_from_event state event data = (state', Inr delta)"
  shows "\<exists>x y. state' = state ++ data(''tkn0_balance'' \<mapsto> x, ''tkn1_balance'' \<mapsto> y) \<and>
               delta = data(''tkn0_balance'' \<mapsto> x, ''tkn1_balance'' \<mapsto> y,
                 ''anchor'' := state' ''anchor'', ''cid'' := state' ''cid'',
                 ''fee'' := state' ''fee'', ''fee_float'' := state' ''fee_float'',
                 ''exchange_name'' := state' ''exchange_name'') \<and>
               identity_keys \<subseteq> dom state'"
proof -
  from assms obtain data1 where eb: "event_balances state event data = Inr data1"
    and st: "state' = state ++ data1" and rb: "read_back state' data1 = Inr delta"
    by (auto simp: update_from_event_def Let_def split: sum.splits)
  from event_balances_Inr [OF eb] obtain x y
    where "data1 = data(''tkn0_balance'' \<mapsto> x, ''tkn1_balance'' \<mapsto> y)" by blast
  with st read_back_Inr [OF rb] show ?thesis by blast
qed

text \<open>
  A call that raises does so either in lines 56-72, with the state untouched, or in
  lines 77-81, on one of the five identity fields and with the state written.
\<close>

lemma update_from_event_Inl:
  assumes "update_from_event state event data = (state', Inl e)"
  shows "(state' = state \<and> e \<notin> KeyError ` identity_keys) \<or>
         (e \<in> KeyError ` identity_keys \<and>
          (\<exists>x y. state' = state ++ data(''tkn0_balance'' \<mapsto> x, ''tkn1_balance'' \<mapsto> y)))"
proof (cases "event_balances state event data")
  case (Inl e')
  with assms have "state' = state" "e' = e"
    by (simp_all add: update_from_event_def)
  with event_balances_Inl [OF Inl] show ?thesis by simp
next
  case (Inr data1)
  with assms have st: "state' = state ++ data1" and rb: "read_back state' data1 = Inl e"
    by (auto simp: update_from_event_def Let_def split: sum.splits)
  from event_balances_Inr [OF Inr] obtain x y
    where "data1 = data(''tkn0_balance'' \<mapsto> x, ''tkn1_balance'' \<mapsto> y)" by blast
  with st read_back_Inl [OF rb] show ?thesis by blast
qed

text \<open>In which of its two parts a raising call of \<open>update_from_event\<close> raised.\<close>

lemma update_from_event_Inl_phase:
  assumes "update_from_event state event data = (state', Inl e)"
  shows "(event_balances state event data = Inl e \<and> state' = state) \<or>
         (\<exists>data1. event_balances state event data = Inr data1 \<and> state' = state ++ data1 \<and>
                  read_back state' data1 = Inl e)"
  using assms by (auto simp: update_from_event_def Let_def split: sum.splits)


lemma update_from_contract_Inr:
  assumes "update_from_contract state c = (state', Inr delta)"
  shows "\<exists>reserve0 reserve1 fee exchange_name address anchor_address.
           reserveBalances c = Inr (reserve0, reserve1) \<and> conversionFee c = Inr fee \<and>
           state ''exchange_name'' = Some exchange_name \<and> state ''address'' = Some address \<and>
           anchor c = Inr anchor_address \<and>
           delta = [''fee'' \<mapsto> VInt fee, ''fee_float'' \<mapsto> VFloatDiv1e6 fee,
                    ''exchange_name'' \<mapsto> exchange_name, ''address'' \<mapsto> address,
                    ''anchor'' \<mapsto> anchor_address,
                    ''tkn0_balance'' \<mapsto> reserve0, ''tkn1_balance'' \<mapsto> reserve1] \<and>
           state' = state ++ delta"
  using assms
  by (auto simp: update_from_contract_def getitem_def Let_def
      split: sum.splits option.splits prod.splits)

lemma update_from_contract_Inl:
  "update_from_contract state c = (state', Inl e) \<Longrightarrow> state' = state"
  by (auto simp: update_from_contract_def getitem_def Let_def
      split: sum.splits option.splits prod.splits)

lemma update_from_contract_dom:
  "update_from_contract state c = (state', Inr delta) \<Longrightarrow> dom delta = contract_keys"
proof -
  assume "update_from_contract state c = (state', Inr delta)"
  from update_from_contract_Inr [OF this]
  obtain reserve0 reserve1 fee exchange_name address anchor_address
    where "delta = [''fee'' \<mapsto> VInt fee, ''fee_float'' \<mapsto> VFloatDiv1e6 fee,
                    ''exchange_name'' \<mapsto> exchange_name, ''address'' \<mapsto> address,
                    ''anchor'' \<mapsto> anchor_address,
                    ''tkn0_balance'' \<mapsto> reserve0, ''tkn1_balance'' \<mapsto> reserve1]"
    by blast
  then have "dom delta = {''tkn1_balance'', ''tkn0_balance'', ''anchor'', ''address'',
      ''exchange_name'', ''fee_float'', ''fee''}"
    by (simp only: dom_fun_upd dom_empty option.simps if_False)
  also have "\<dots> = contract_keys"
    unfolding contract_keys_def by (simp add: insert_commute)
  finally show ?thesis .
qed

section \<open>An event that does not match the pool's pair\<close>

text \<open>
  Whenever the comparison of line 67 is false and the call returns, the delta and the
  state hold the pool's previous \<open>tkn0_balance\<close> under both balance keys.
\<close>

lemma unmatched_event_balances:
  assumes "update_from_event state event data = (state', Inr delta)"
    and "state ''tkn0_address'' = Some A" and "state ''tkn1_address'' = Some B"
    and "event ''args'' = Some a" and "tokens_match a A B = Inr False"
  shows "delta ''tkn0_balance'' = state ''tkn0_balance'' \<and>
         delta ''tkn1_balance'' = state ''tkn0_balance'' \<and>
         state' ''tkn0_balance'' = state ''tkn0_balance'' \<and>
         state' ''tkn1_balance'' = state ''tkn0_balance''"
proof -
  from assms obtain data1 where eb: "event_balances state event data = Inr data1"
    and st: "state' = state ++ data1" and rb: "read_back state' data1 = Inr delta"
    by (auto simp: update_from_event_def Let_def split: sum.splits)
  from eb assms(2-5) obtain b where b: "state ''tkn0_balance'' = Some b"
    and d1: "data1 = data(''tkn0_balance'' \<mapsto> b, ''tkn1_balance'' \<mapsto> b)"
    by (auto simp: event_balances_def getitem_def split: option.splits)
  from read_back_Inr [OF rb] have "delta ''tkn0_balance'' = data1 ''tkn0_balance''"
    "delta ''tkn1_balance'' = data1 ''tkn1_balance''"
    by simp_all
  then show ?thesis by (simp add: st d1 b)
qed

text \<open>
  Claim C1, at the pool and the swapped event of the specification's scenario. The
  claim asks for the balances (100, 200) to stay as they are. The call returns, and
  \<open>tkn1_balance\<close> is 100 in the delta and in the state: line 72 copies
  \<^verbatim>\<open>self.state["tkn0_balance"]\<close>, where the pool held 200.
\<close>

theorem swapped_event_duplicates_tkn0_balance:
  "\<exists>state' delta.
     update_from_event scenario_pool swapped_event Map.empty = (state', Inr delta) \<and>
     delta ''tkn0_balance'' = Some (VInt 100) \<and> delta ''tkn1_balance'' = Some (VInt 100) \<and>
     state' ''tkn0_balance'' = Some (VInt 100) \<and> state' ''tkn1_balance'' = Some (VInt 100) \<and>
     scenario_pool ''tkn1_balance'' = Some (VInt 200)"
  by (simp add: event_defs scenario_pool_def swapped_event_def)

section \<open>The keys of a delta\<close>

text \<open>
  Claim C2 asks for \<open>cid\<close> in the delta of either update path. The dictionary of
  lines 91-99 has no such entry.
\<close>

theorem contract_delta_has_no_cid:
  "\<exists>state' delta.
     update_from_contract scenario_pool scenario_contract = (state', Inr delta) \<and>
     delta ''cid'' = None"
  by (simp add: update_from_contract_def getitem_def scenario_pool_def scenario_contract_def)

text \<open>
  Claim C2, amended. Every delta returned by \<open>update_from_event\<close> has the keys
  \<open>cid\<close>, \<open>fee\<close>, \<open>fee_float\<close>, \<open>exchange_name\<close>, \<open>anchor\<close>, \<open>tkn0_balance\<close> and
  \<open>tkn1_balance\<close>. Every delta returned by \<open>update_from_contract\<close> has exactly the
  keys \<open>fee\<close>, \<open>fee_float\<close>, \<open>exchange_name\<close>, \<open>address\<close>, \<open>anchor\<close>,
  \<open>tkn0_balance\<close> and \<open>tkn1_balance\<close>, and so no \<open>cid\<close>.
\<close>

theorem delta_keys:
  "(update_from_event state event data = (state', Inr delta) \<longrightarrow>
      {''cid'', ''fee'', ''fee_float'', ''exchange_name'', ''anchor'',
       ''tkn0_balance'', ''tkn1_balance''} \<subseteq> dom delta) \<and>
   (update_from_contract state c = (state'', Inr params) \<longrightarrow>
      dom params = contract_keys \<and> params ''cid'' = None)"
proof (intro conjI impI)
  assume "update_from_event state event data = (state', Inr delta)"
  from update_from_event_Inr [OF this] obtain x y where
    d: "delta = data(''tkn0_balance'' \<mapsto> x, ''tkn1_balance'' \<mapsto> y,
                 ''anchor'' := state' ''anchor'', ''cid'' := state' ''cid'',
                 ''fee'' := state' ''fee'', ''fee_float'' := state' ''fee_float'',
                 ''exchange_name'' := state' ''exchange_name'')"
    and k: "identity_keys \<subseteq> dom state'"
    by blast
  from k have "state' ''anchor'' \<noteq> None" "state' ''cid'' \<noteq> None" "state' ''fee'' \<noteq> None"
    "state' ''fee_float'' \<noteq> None" "state' ''exchange_name'' \<noteq> None"
    by (auto simp: identity_keys_def)
  then show "{''cid'', ''fee'', ''fee_float'', ''exchange_name'', ''anchor'',
       ''tkn0_balance'', ''tkn1_balance''} \<subseteq> dom delta"
    by (simp add: d domIff)
next
  assume run: "update_from_contract state c = (state'', Inr params)"
  then show "dom params = contract_keys" by (rule update_from_contract_dom)
  then have "''cid'' \<notin> dom params" by (simp add: contract_keys_def)
  then show "params ''cid'' = None" by (simp add: domIff)
qed

theorem delta_keys_witness:
  "(\<exists>state' delta.
      update_from_event scenario_pool matching_event Map.empty = (state', Inr delta) \<and>
      {''cid'', ''fee'', ''fee_float'', ''exchange_name'', ''anchor'',
       ''tkn0_balance'', ''tkn1_balance''} \<subseteq> dom delta) \<and>
   (\<exists>state' params.
      update_from_contract scenario_pool scenario_contract = (state', Inr params) \<and>
      dom params = contract_keys \<and> params ''cid'' = None)"
proof -
  obtain s1 d1 where
    run1: "update_from_event scenario_pool matching_event Map.empty = (s1, Inr d1)"
    by (simp add: event_defs scenario_pool_def matching_event_def)
  obtain s2 d2 where
    run2: "update_from_contract scenario_pool scenario_contract = (s2, Inr d2)"
    by (simp add: update_from_contract_def getitem_def scenario_pool_def scenario_contract_def
        Let_def)
  from delta_keys [of scenario_pool matching_event Map.empty s1 d1 scenario_contract s2 d2]
    run1 run2
  show ?thesis by simp
qed

section \<open>A matching event\<close>




section \<open>The seed\<close>

text \<open>
  Claim C4 asks for every entry of the seed to reach the delta as it is, the two
  balances included. A seed balance is overwritten by line 68.
\<close>

theorem seed_balance_overwritten:
  "\<exists>state' delta.
     update_from_event scenario_pool matching_event [''tkn0_balance'' \<mapsto> VInt 7]
       = (state', Inr delta) \<and>
     delta ''tkn0_balance'' = Some (VInt 150)"
  by (simp add: event_defs scenario_pool_def matching_event_def)

text \<open>
  Claim C4, amended. Every entry of the seed whose key is neither \<open>tkn0_balance\<close> nor
  \<open>tkn1_balance\<close> is in the returned delta, and in the state, with the seed's value;
  this includes \<open>cid\<close>, \<open>fee\<close>, \<open>fee_float\<close>, \<open>anchor\<close> and \<open>exchange_name\<close>.
\<close>

theorem seed_fields_preserved:
  assumes "update_from_event state event data = (state', Inr delta)"
    and "data k = Some v" and "k \<noteq> ''tkn0_balance''" and "k \<noteq> ''tkn1_balance''"
  shows "delta k = Some v \<and> state' k = Some v"
proof -
  from update_from_event_Inr [OF assms(1)] obtain x y where
    s: "state' = state ++ data(''tkn0_balance'' \<mapsto> x, ''tkn1_balance'' \<mapsto> y)" and
    d: "delta = data(''tkn0_balance'' \<mapsto> x, ''tkn1_balance'' \<mapsto> y,
                 ''anchor'' := state' ''anchor'', ''cid'' := state' ''cid'',
                 ''fee'' := state' ''fee'', ''fee_float'' := state' ''fee_float'',
                 ''exchange_name'' := state' ''exchange_name'')"
    by blast
  have sk: "state' k = Some v"
    using assms(2-4) by (simp add: s map_add_def)
  have "delta k = Some v"
    using assms(2-4) sk by (auto simp: d)
  with sk show ?thesis by simp
qed

theorem seed_fields_preserved_witness:
  "\<exists>state' delta.
     update_from_event scenario_pool matching_event
       [''cid'' \<mapsto> VStr ''p2'', ''block'' \<mapsto> VInt 17] = (state', Inr delta) \<and>
     delta ''cid'' = Some (VStr ''p2'') \<and> state' ''cid'' = Some (VStr ''p2'') \<and>
     delta ''block'' = Some (VInt 17) \<and> state' ''block'' = Some (VInt 17)"
proof -
  let ?seed = "[''cid'' \<mapsto> VStr ''p2'', ''block'' \<mapsto> VInt 17]"
  obtain s d where run: "update_from_event scenario_pool matching_event ?seed = (s, Inr d)"
    by (simp add: event_defs scenario_pool_def matching_event_def)
  have "d ''cid'' = Some (VStr ''p2'') \<and> s ''cid'' = Some (VStr ''p2'')"
    by (rule seed_fields_preserved [OF run]) simp_all
  moreover have "d ''block'' = Some (VInt 17) \<and> s ''block'' = Some (VInt 17)"
    by (rule seed_fields_preserved [OF run]) simp_all
  ultimately show ?thesis using run by simp
qed

section \<open>The state after a failure\<close>

text \<open>
  Claim C5 asks for the state to be as before on every failure of
  \<open>update_from_event\<close>, a missing \<open>anchor\<close> included. The pool of the specification's
  scenario has no \<open>anchor\<close>: the call raises at line 77, after lines 74-75 have
  stored the event's balance.
\<close>

theorem missing_anchor_leaves_written_state:
  "snd (update_from_event bare_pool matching_event Map.empty) = Inl (KeyError ''anchor'') \<and>
   fst (update_from_event bare_pool matching_event Map.empty) ''tkn0_balance''
     = Some (VInt 150) \<and>
   bare_pool ''tkn0_balance'' = Some (VInt 100)"
  by (simp add: event_defs bare_pool_def matching_event_def)

text \<open>
  Claim C5, amended. When \<open>update_from_event\<close> raises anything but a \<open>KeyError\<close> for
  \<open>anchor\<close>, \<open>cid\<close>, \<open>fee\<close>, \<open>fee_float\<close> or \<open>exchange_name\<close> (so: for a missing
  \<open>tkn0_address\<close>, \<open>tkn1_address\<close>, \<open>args\<close>, \<open>_token1\<close>, \<open>_token2\<close>, \<open>_rateN\<close>,
  \<open>_rateD\<close> or \<open>tkn0_balance\<close>), it raised in lines 56-72 and the state is as it was
  before the call. When it raises a \<open>KeyError\<close> for one of those five fields, lines
  56-72 had computed their dictionary (the seed with the two balances of lines 68-72),
  the state is the old state overridden by exactly that dictionary, and the error is
  the one lines 77-81 raise on the written state.
\<close>

theorem failure_store:
  assumes "update_from_event state event data = (state', Inl e)"
  shows "(e \<notin> KeyError ` identity_keys \<longrightarrow>
            event_balances state event data = Inl e \<and> state' = state) \<and>
         (e \<in> KeyError ` identity_keys \<longrightarrow>
            (\<exists>data1 x y. event_balances state event data = Inr data1 \<and>
               data1 = data(''tkn0_balance'' \<mapsto> x, ''tkn1_balance'' \<mapsto> y) \<and>
               state' = state ++ data1 \<and>
               read_back state' data1 = Inl e))"
proof -
  from update_from_event_Inl_phase [OF assms]
  consider (early) "event_balances state event data = Inl e" "state' = state"
    | (late) data1 where "event_balances state event data = Inr data1"
        "state' = state ++ data1" "read_back state' data1 = Inl e"
    by blast
  then show ?thesis
  proof cases
    case early
    with event_balances_Inl [OF early(1)] show ?thesis by simp
  next
    case late
    from event_balances_Inr [OF late(1)] obtain x y
      where "data1 = data(''tkn0_balance'' \<mapsto> x, ''tkn1_balance'' \<mapsto> y)" by blast
    with late read_back_Inl [OF late(3)] show ?thesis by blast
  qed
qed

text \<open>
  An early failure on a pool with fields and a seed with an entry: neither the
  balances nor the seed reach the state. A late failure: the state holds the seed's
  entry and the event's rates 150 and 250.
\<close>

theorem failure_store_witness:
  "snd (update_from_event scenario_pool unrelated_event [''block'' \<mapsto> VInt 17])
     = Inl (KeyError ''_token2'') \<and>
   fst (update_from_event scenario_pool unrelated_event [''block'' \<mapsto> VInt 17])
     = scenario_pool \<and>
   scenario_pool ''block'' = None \<and>
   snd (update_from_event bare_pool matching_event [''block'' \<mapsto> VInt 17])
     = Inl (KeyError ''anchor'') \<and>
   fst (update_from_event bare_pool matching_event [''block'' \<mapsto> VInt 17])
     = bare_pool ++ [''block'' \<mapsto> VInt 17, ''tkn0_balance'' \<mapsto> VInt 150,
                     ''tkn1_balance'' \<mapsto> VInt 250]"
proof -
  let ?seed = "[''block'' \<mapsto> VInt 17]"
  obtain s1 where run1: "update_from_event scenario_pool unrelated_event ?seed
      = (s1, Inl (KeyError ''_token2''))"
    by (simp add: event_defs scenario_pool_def unrelated_event_def)
  obtain s2 where run2: "update_from_event bare_pool matching_event ?seed
      = (s2, Inl (KeyError ''anchor''))"
    by (simp add: event_defs bare_pool_def matching_event_def)
  have k: "KeyError ''_token2'' \<notin> KeyError ` identity_keys"
    "KeyError ''anchor'' \<in> KeyError ` identity_keys"
    by (simp_all add: identity_keys_def image_iff)
  have eb: "event_balances bare_pool matching_event ?seed
      = Inr (?seed(''tkn0_balance'' \<mapsto> VInt 150, ''tkn1_balance'' \<mapsto> VInt 250))"
    by (simp add: event_balances_def tokens_match_def getitem_def bare_pool_def
        matching_event_def)
  from failure_store [OF run1] k(1) have "s1 = scenario_pool" by simp
  moreover from failure_store [OF run2] k(2) eb
  have "s2 = bare_pool ++ ?seed(''tkn0_balance'' \<mapsto> VInt 150, ''tkn1_balance'' \<mapsto> VInt 250)"
    by auto
  moreover have "scenario_pool ''block'' = None" by (simp add: scenario_pool_def)
  ultimately show ?thesis using run1 run2 by simp
qed

section \<open>The identity key\<close>

text \<open>
  Claim C6 asks for \<^verbatim>\<open>state["address"]\<close> to survive every call, whatever the seed.
  A seed with an \<open>address\<close> entry is stored by lines 74-75 like any other.
\<close>

theorem seed_address_overwrites_identity:
  "fst (update_from_event scenario_pool matching_event [''address'' \<mapsto> VStr ''0xE'']) unique_key
     = Some (VStr ''0xE'') \<and>
   scenario_pool unique_key = Some (VStr ''0xD'')"
  by (simp add: event_defs scenario_pool_def matching_event_def unique_key_def)

text \<open>
  Claim C6, amended. \<open>update_from_contract\<close> never changes the state field named by
  \<open>unique_key\<close>, whatever the contract returns and whether or not the call raises;
  \<open>update_from_event\<close> never changes it for any event and any seed that has no entry
  under that key.
\<close>

theorem address_stable:
  "fst (update_from_contract state c) unique_key = state unique_key \<and>
   (data unique_key = None \<longrightarrow>
      fst (update_from_event state event data) unique_key = state unique_key)"
proof (intro conjI impI)
  obtain state' r where run: "update_from_contract state c = (state', r)"
    by (cases "update_from_contract state c")
  show "fst (update_from_contract state c) unique_key = state unique_key"
  proof (cases r)
    case (Inl e)
    with run have "state' = state" by (auto dest: update_from_contract_Inl)
    with run show ?thesis by simp
  next
    case (Inr delta)
    with run have "update_from_contract state c = (state', Inr delta)" by simp
    from update_from_contract_Inr [OF this] show ?thesis
      by (auto simp: run unique_key_def)
  qed
next
  assume none: "data unique_key = None"
  obtain state' r where run: "update_from_event state event data = (state', r)"
    by (cases "update_from_event state event data")
  have "state' = state \<or>
    (\<exists>x y. state' = state ++ data(''tkn0_balance'' \<mapsto> x, ''tkn1_balance'' \<mapsto> y))"
  proof (cases r)
    case (Inl e)
    with run update_from_event_Inl show ?thesis by blast
  next
    case (Inr delta)
    with run update_from_event_Inr show ?thesis by blast
  qed
  with none have "state' unique_key = state unique_key"
    by (auto simp: unique_key_def map_add_def)
  with run show "fst (update_from_event state event data) unique_key = state unique_key"
    by simp
qed

theorem address_stable_witness:
  "fst (update_from_contract scenario_pool scenario_contract) unique_key = Some (VStr ''0xD'') \<and>
   fst (update_from_event scenario_pool matching_event Map.empty) unique_key = Some (VStr ''0xD'')"
  using address_stable [of scenario_pool scenario_contract Map.empty matching_event]
  by (simp add: scenario_pool_def unique_key_def)

section \<open>Reading the contract\<close>

text \<open>
  Claim C7. A second call of \<open>update_from_contract\<close>, on the state the first call
  left and with the contract's reads unchanged, ends as the first did (the same delta,
  or the same exception) and leaves that state as it is.
\<close>

theorem refresh_twice:
  assumes "update_from_contract state c = (state1, r)"
  shows "update_from_contract state1 c = (state1, r)"
proof (cases r)
  case (Inl e)
  with assms update_from_contract_Inl show ?thesis by blast
next
  case (Inr delta)
  with assms have "update_from_contract state c = (state1, Inr delta)" by simp
  from update_from_contract_Inr [OF this]
  obtain reserve0 reserve1 fee exchange_name address anchor_address
    where c: "reserveBalances c = Inr (reserve0, reserve1)" "conversionFee c = Inr fee"
      "anchor c = Inr anchor_address"
    and d: "delta = [''fee'' \<mapsto> VInt fee, ''fee_float'' \<mapsto> VFloatDiv1e6 fee,
                    ''exchange_name'' \<mapsto> exchange_name, ''address'' \<mapsto> address,
                    ''anchor'' \<mapsto> anchor_address,
                    ''tkn0_balance'' \<mapsto> reserve0, ''tkn1_balance'' \<mapsto> reserve1]"
    and s: "state1 = state ++ delta"
    by blast
  have "state1 ''exchange_name'' = Some exchange_name" "state1 ''address'' = Some address"
    by (simp_all add: s d)
  moreover have "state1 ++ delta = state1"
    unfolding s by (rule map_add_twice)
  ultimately show ?thesis
    using c d Inr by (simp add: update_from_contract_def getitem_def)
qed

theorem refresh_twice_witness:
  "\<exists>state1 delta.
     update_from_contract scenario_pool scenario_contract = (state1, Inr delta) \<and>
     update_from_contract state1 scenario_contract = (state1, Inr delta) \<and>
     delta ''tkn0_balance'' = Some (VInt 500) \<and> state1 ''tkn0_balance'' = Some (VInt 500)"
proof -
  obtain s d where run: "update_from_contract scenario_pool scenario_contract = (s, Inr d)"
    and "d ''tkn0_balance'' = Some (VInt 500)" "s ''tkn0_balance'' = Some (VInt 500)"
    by (simp add: update_from_contract_def getitem_def scenario_pool_def scenario_contract_def
        Let_def)
  with refresh_twice [OF run] show ?thesis by simp
qed

text \<open>
  The delta's \<open>fee\<close> is the integer the contract returned, and its \<open>fee_float\<close> is
  the float Python computes from that integer by \<^verbatim>\<open>fee / 1e6\<close>. How far that float
  is from the quotient is a property of floating-point division, outside this theory.
\<close>

lemma contract_delta_fee_float:
  "update_from_contract state c = (state', Inr delta) \<Longrightarrow>
   \<exists>fee. conversionFee c = Inr fee \<and> delta ''fee'' = Some (VInt fee) \<and>
         delta ''fee_float'' = Some (VFloatDiv1e6 fee)"
  by (drule update_from_contract_Inr) auto

text \<open>
  Claim C10. A call of \<open>update_from_contract\<close> that returns writes the seven keys of
  its dictionary, each with the delta's value, and leaves every other field of the
  state as it was; \<open>tkn0_address\<close>, \<open>tkn1_address\<close> and \<open>cid\<close> are among those it
  leaves. On a pool that had no \<open>tkn0_address\<close> before, every later call of
  \<open>update_from_event\<close> raises \<open>KeyError\<close> for \<open>tkn0_address\<close> and leaves the state.
\<close>

theorem contract_frame:
  assumes "update_from_contract state c = (state', Inr delta)"
  shows "dom delta = contract_keys \<and>
         (\<forall>k. k \<in> contract_keys \<longrightarrow> state' k = delta k) \<and>
         (\<forall>k. k \<notin> contract_keys \<longrightarrow> state' k = state k) \<and>
         state' ''tkn0_address'' = state ''tkn0_address'' \<and>
         state' ''tkn1_address'' = state ''tkn1_address'' \<and>
         state' ''cid'' = state ''cid'' \<and>
         (state ''tkn0_address'' = None \<longrightarrow>
            (\<forall>event data. update_from_event state' event data
                            = (state', Inl (KeyError ''tkn0_address''))))"
proof -
  have dom: "dom delta = contract_keys"
    using assms by (rule update_from_contract_dom)
  from update_from_contract_Inr [OF assms] have s: "state' = state ++ delta"
    by blast
  have written: "state' k = delta k" if "k \<in> contract_keys" for k
    using that dom by (auto simp: s map_add_def split: option.split)
  have kept: "state' k = state k" if "k \<notin> contract_keys" for k
    using that dom by (auto simp: s map_add_def split: option.split)
  have "''tkn0_address'' \<notin> contract_keys" "''tkn1_address'' \<notin> contract_keys"
    "''cid'' \<notin> contract_keys"
    by (simp_all add: contract_keys_def)
  then have three: "state' ''tkn0_address'' = state ''tkn0_address''"
    "state' ''tkn1_address'' = state ''tkn1_address''" "state' ''cid'' = state ''cid''"
    by (simp_all add: kept)
  have "update_from_event state' event data = (state', Inl (KeyError ''tkn0_address''))"
    if "state ''tkn0_address'' = None" for event data
    using that three(1) by (simp add: update_from_event_def event_balances_def getitem_def)
  with dom written kept three show ?thesis by blast
qed

theorem contract_frame_witness:
  "\<exists>state' delta.
     update_from_contract fresh_pool scenario_contract = (state', Inr delta) \<and>
     dom delta = contract_keys \<and>
     state' ''tkn0_address'' = None \<and> state' ''tkn1_address'' = None \<and> state' ''cid'' = None \<and>
     state' ''tkn0_balance'' = Some (VInt 500) \<and>
     update_from_event state' matching_event Map.empty = (state', Inl (KeyError ''tkn0_address''))"
proof -
  obtain state' delta where
    run: "update_from_contract fresh_pool scenario_contract = (state', Inr delta)"
    and bal: "delta ''tkn0_balance'' = Some (VInt 500)"
    by (simp add: update_from_contract_def getitem_def fresh_pool_def scenario_contract_def
        Let_def)
  have none: "fresh_pool ''tkn0_address'' = None" "fresh_pool ''tkn1_address'' = None"
    "fresh_pool ''cid'' = None"
    by (simp_all add: fresh_pool_def)
  have "''tkn0_balance'' \<in> contract_keys" by (simp add: contract_keys_def)
  with contract_frame [OF run] none bal run show ?thesis by simp
qed

section \<open>Classifying an event\<close>

text \<open>
  Claim C9. For an event that has an \<open>args\<close> dictionary, \<open>event_matches_format\<close>
  returns whether \<open>_rateN\<close> is a key of it, and adding, removing or changing any
  other argument does not change the answer. The function is a class method: it is
  given the event alone, neither reads nor returns a pool's state, and as a function it
  gives equal answers on equal events.
\<close>

theorem event_matches_format_iff:
  assumes "event ''args'' = Some a"
  shows "event_matches_format event = Inr (''_rateN'' \<in> dom a) \<and>
         (\<forall>k v. k \<noteq> ''_rateN'' \<longrightarrow>
            event_matches_format (event(''args'' \<mapsto> a(k := v))) = event_matches_format event)"
  using assms by (auto simp: event_matches_format_def getitem_def)

theorem event_matches_format_iff_witness:
  "event_matches_format matching_event = Inr True \<and>
   event_matches_format unrelated_event = Inr False \<and>
   event_matches_format (matching_event(''args'' \<mapsto>
       [''_token1'' \<mapsto> VStr ''0xA'', ''_token2'' \<mapsto> VStr ''0xB'',
        ''_rateN'' \<mapsto> VInt 150, ''_rateD'' \<mapsto> VInt 250, ''extra'' \<mapsto> VInt 1]))
     = Inr True"
proof -
  let ?a = "[''_token1'' \<mapsto> VStr ''0xA'', ''_token2'' \<mapsto> VStr ''0xB'',
             ''_rateN'' \<mapsto> VInt 150, ''_rateD'' \<mapsto> VInt 250]"
  have a: "matching_event ''args'' = Some ?a"
    by (simp add: matching_event_def)
  have b: "unrelated_event ''args'' = Some [''_token1'' \<mapsto> VStr ''0xA'', ''amount'' \<mapsto> VInt 5]"
    by (simp add: unrelated_event_def)
  have x: "''extra'' \<noteq> ''_rateN''" by simp
  from event_matches_format_iff [of matching_event ?a, OF a]
  have 1: "event_matches_format matching_event = Inr True"
    and "event_matches_format (matching_event(''args'' \<mapsto> ?a(''extra'' := Some (VInt 1))))
         = event_matches_format matching_event"
    using x by simp_all
  moreover from event_matches_format_iff
      [of unrelated_event "[''_token1'' \<mapsto> VStr ''0xA'', ''amount'' \<mapsto> VInt 5]", OF b]
  have "event_matches_format unrelated_event = Inr False"
    by simp
  ultimately show ?thesis by simp
qed

end
